theory Spec2Isabelle
  imports Complex_Main "HOL-Library.AList"
begin

section \<open>Python values, exceptions and containers\<close>

text \<open>
  The exceptions the modelled code can raise are Python's built-in ones. The source
  defines no exception class of its own; the last three constructors are names of the
  specification's error taxonomy, present only so that statements about them can be
  written. \<open>UnitMismatch\<close> is raised by the unit-checking decorator, which is modelled
  from the specification; no function translated from the source raises
  \<open>InvalidBoxVector\<close> or \<open>UnknownMoleculeType\<close>.
\<close>

datatype py_error =
    KeyError string
  | IndexError
  | AttributeError string
  | ValueError string
  | IOError string
  | InvalidBoxVector
  | UnknownMoleculeType string
  | UnitMismatch

text \<open>
  An \<open>OrderedDict\<close> is an association list with distinct keys in insertion order:
  \<open>d[k] = v\<close> replaces the value in place when \<open>k\<close> is present and appends otherwise,
  \<open>del d[k]\<close> removes the entry, \<open>d[k]\<close> raises \<open>KeyError(k)\<close> when \<open>k\<close> is missing.
\<close>

definition od_contains :: "(string \<times> 'v) list \<Rightarrow> string \<Rightarrow> bool" where
  "od_contains d k = (map_of d k \<noteq> None)"

definition od_getitem :: "(string \<times> 'v) list \<Rightarrow> string \<Rightarrow> py_error + 'v" where
  "od_getitem d k = (case map_of d k of None \<Rightarrow> Inl (KeyError k) | Some v \<Rightarrow> Inr v)"

definition od_setitem :: "string \<Rightarrow> 'v \<Rightarrow> (string \<times> 'v) list \<Rightarrow> (string \<times> 'v) list" where
  "od_setitem k v d = AList.update k v d"


definition od_values :: "(string \<times> 'v) list \<Rightarrow> 'v list" where
  "od_values d = map snd d"

text \<open>
  Indexing a sequence with a Python integer: a negative index counts from the end, an
  index outside the sequence raises \<open>IndexError\<close>.
\<close>

definition py_getitem :: "'a list \<Rightarrow> int \<Rightarrow> py_error + 'a" where
  "py_getitem xs i =
     (if 0 \<le> i \<and> i < int (length xs) then Inr (xs ! nat i)
      else if i < 0 \<and> - int (length xs) \<le> i then Inr (xs ! nat (int (length xs) + i))
      else Inl IndexError)"

text \<open>
  A generator is run to its end: the list of the values it yields, and the exception
  that stopped it, if one did. \<open>gen_for\<close> is a \<open>for\<close> loop whose body is itself a
  generator: the bodies run in order and the first exception ends everything.
\<close>

type_synonym 'y generated = "'y list \<times> py_error option"

fun gen_for :: "('x \<Rightarrow> 'y generated) \<Rightarrow> 'x list \<Rightarrow> 'y generated" where
  "gen_for body [] = ([], None)"
| "gen_for body (x # xs) =
     (case body x of
        (ys, Some e) \<Rightarrow> (ys, Some e)
      | (ys, None) \<Rightarrow> (case gen_for body xs of (zs, r) \<Rightarrow> (ys @ zs, r)))"

section \<open>Units, quantities and arrays (simtk.unit and numpy)\<close>

datatype dimension = Angle | MolarEnergy | Length | Dimensionless

datatype py_unit =
    degrees | radians
  | kilojoules_per_mole | kilocalories_per_mole
  | nanometers | angstroms
  | dimensionless

fun dimension_of :: "py_unit \<Rightarrow> dimension" where
  "dimension_of degrees = Angle"
| "dimension_of radians = Angle"
| "dimension_of kilojoules_per_mole = MolarEnergy"
| "dimension_of kilocalories_per_mole = MolarEnergy"
| "dimension_of nanometers = Length"
| "dimension_of angstroms = Length"
| "dimension_of dimensionless = Dimensionless"

definition is_compatible :: "py_unit \<Rightarrow> py_unit \<Rightarrow> bool" where
  "is_compatible u v = (dimension_of u = dimension_of v)"

text \<open>A scalar quantity: a number with its unit tag.\<close>

record quantity =
  q_value :: real
  q_unit :: py_unit

text \<open>
  A numpy array is its shape and its elements in row-major order. The values that can be
  assigned to a box vector are a unit-tagged array (a \<open>Quantity\<close>, which hands the
  attribute \<open>shape\<close> on to the array it wraps), a plain array, and any other object,
  which has no attribute \<open>shape\<close>.
\<close>

datatype ndarray = NdArray (shape: "nat list") (elems: "real list")

datatype box_value = Quantity ndarray py_unit | Array ndarray | Other

fun shape_of :: "box_value \<Rightarrow> py_error + nat list" where
  "shape_of (Quantity a u) = Inr (shape a)"
| "shape_of (Array a) = Inr (shape a)"
| "shape_of Other = Inl (AttributeError ''shape'')"

definition np_zeros :: "nat list \<Rightarrow> ndarray" where
  "np_zeros sh = NdArray sh (replicate (prod_list sh) 0)"

text \<open>
  \<open>np.array\<close> belongs to numpy; the setter is modelled for any function from the
  assigned value to a plain array. \<open>np_array_values\<close> is the reading used to evaluate
  examples: the array itself, or the array a quantity wraps.
\<close>

fun np_array_values :: "box_value \<Rightarrow> ndarray" where
  "np_array_values (Quantity a u) = a"
| "np_array_values (Array a) = a"
| "np_array_values Other = NdArray [] []"

section \<open>Molecules and molecule types\<close>

text \<open>
  Modelled from the spec: the classes \<open>Atom\<close>, \<open>Bond\<close>, \<open>Molecule\<close> and \<open>MoleculeType\<close>
  are not among the source files. An atom is an object, represented by its identity
  (the type \<open>'a\<close>). A bond template refers to its two atoms by 1-based position in a
  molecule. A molecule is an ordered sequence of atoms; a molecule type owns an ordered
  sequence of molecules and the list of bond templates they share, and its name is its
  key in the registry of a system. \<open>MoleculeType.add_molecule\<close> appends a molecule to
  the sequence.
\<close>

record bond =
  atom1 :: int
  atom2 :: int

record 'a molecule =
  mol_name :: string
  mol_atoms :: "'a list"

record 'a moleculetype =
  mt_name :: string
  mt_molecules :: "'a molecule list"
  mt_bonds :: "bond list"

definition mt_add_molecule :: "'a molecule \<Rightarrow> 'a moleculetype \<Rightarrow> 'a moleculetype" where
  "mt_add_molecule m mt = mt\<lparr>mt_molecules := mt_molecules mt @ [m]\<rparr>"

section \<open>System\<close>

text \<open>
  The attributes of \<open>System\<close> that its methods below read or write. Private attributes
  \<open>_x\<close> are the fields \<open>p_x\<close>; the properties keep their names. The dictionaries of atom,
  bond, angle, dihedral and nonbonded types are not read by any of these methods and are
  left out. A cached graph is a reference into the store of graph objects.
\<close>

record 'a system =
  sys_name :: string
  nonbonded_function :: int
  combination_rule :: int
  genpairs :: string
  lj_correction :: int
  coulomb_correction :: int
  p_box_vector :: box_value
  p_n_atoms :: "int option"
  p_molecule_types :: "(string \<times> 'a moleculetype) list"
  p_bondgraph :: "nat option"
  p_bondgraph_per_moleculetype :: "nat option"

definition System_init :: "string option \<Rightarrow> 'a system" where
  "System_init nm =
     \<lparr> sys_name = (case nm of None \<Rightarrow> ''Untitled'' | Some n \<Rightarrow> if n = [] then ''Untitled'' else n),
       nonbonded_function = 0,
       combination_rule = 0,
       genpairs = ''yes'',
       lj_correction = 0,
       coulomb_correction = 0,
       p_box_vector = Quantity (np_zeros [3, 3]) nanometers,
       p_n_atoms = None,
       p_molecule_types = [],
       p_bondgraph = None,
       p_bondgraph_per_moleculetype = None \<rparr>"

text \<open>
  A method that can raise returns the exception, if any, together with the system as
  the call leaves it.
\<close>

definition add_molecule :: "'a molecule \<Rightarrow> 'a system \<Rightarrow> py_error option \<times> 'a system" where
  "add_molecule m s =
     (case od_getitem (p_molecule_types s) (mol_name m) of
        Inl e \<Rightarrow> (Some e, s)
      | Inr mt \<Rightarrow>
          (None, s\<lparr>p_molecule_types :=
                     od_setitem (mol_name m) (mt_add_molecule m mt) (p_molecule_types s)\<rparr>))"

definition add_molecule_type :: "'a moleculetype \<Rightarrow> 'a system \<Rightarrow> 'a system" where
  "add_molecule_type mt s =
     s\<lparr>p_molecule_types := od_setitem (mt_name mt) mt (p_molecule_types s)\<rparr>"

definition molecule_types :: "'a system \<Rightarrow> (string \<times> 'a moleculetype) list" where
  "molecule_types s = p_molecule_types s"

definition atoms :: "'a system \<Rightarrow> 'a list" where
  "atoms s =
     concat (map (\<lambda>mol_type. concat (map mol_atoms (mt_molecules mol_type)))
                 (od_values (molecule_types s)))"

text \<open>
  \<open>_n_atoms\<close> holds \<open>None\<close> or an integer; \<open>not self._n_atoms\<close> is true of \<open>None\<close> and
  of \<open>0\<close>.
\<close>

definition falsy :: "int option \<Rightarrow> bool" where
  "falsy v = (case v of None \<Rightarrow> True | Some n \<Rightarrow> n = 0)"

definition n_atoms :: "'a system \<Rightarrow> int option \<times> 'a system" where
  "n_atoms s =
     (if falsy (p_n_atoms s)
      then (Some (int (length (atoms s))), s\<lparr>p_n_atoms := Some (int (length (atoms s)))\<rparr>)
      else (p_n_atoms s, s))"

definition n_atoms_setter :: "int option \<Rightarrow> 'a system \<Rightarrow> 'a system" where
  "n_atoms_setter n s = s\<lparr>p_n_atoms := n\<rparr>"

definition box_vector :: "'a system \<Rightarrow> box_value" where
  "box_vector s = p_box_vector s"

text \<open>
  The setter also writes to the module's logger; the third component is the list of
  exceptions logged so far. Reading \<open>v.shape\<close> is the only step that can raise.
\<close>

definition box_vector_setter ::
  "(box_value \<Rightarrow> ndarray) \<Rightarrow> box_value \<Rightarrow> 'a system \<Rightarrow> py_error list
     \<Rightarrow> py_error option \<times> 'a system \<times> py_error list" where
  "box_vector_setter np_array v s logger =
     (case shape_of v of
        Inl e \<Rightarrow> (Some e, s, logger)
      | Inr sh \<Rightarrow>
          (None,
           s\<lparr>p_box_vector := Array (np_array v)\<rparr>,
           if sh \<noteq> [3, 3]
           then logger @ [ValueError ''Box vector with incorrect format'']
           else logger))"

definition bonds :: "'a system \<Rightarrow> bond list" where
  "bonds s = concat (map mt_bonds (od_values (molecule_types s)))"

text \<open>
  The body of the innermost loop of both pair generators: the two atoms of a bond
  template, looked up in the atom sequence of one molecule. The first lookup that
  raises stops the generator.
\<close>

definition bond_atoms :: "'a list \<Rightarrow> bond \<Rightarrow> ('a \<times> 'a) generated" where
  "bond_atoms ats b =
     (case py_getitem ats (atom1 b - 1) of
        Inl e \<Rightarrow> ([], Some e)
      | Inr a1 \<Rightarrow>
          (case py_getitem ats (atom2 b - 1) of
             Inl e \<Rightarrow> ([], Some e)
           | Inr a2 \<Rightarrow> ([(a1, a2)], None)))"

definition connected_pairs :: "'a system \<Rightarrow> ('a \<times> 'a) generated" where
  "connected_pairs s =
     gen_for (\<lambda>mol_type.
        gen_for (\<lambda>molecule.
           gen_for (\<lambda>bond. bond_atoms (mol_atoms molecule) bond) (mt_bonds mol_type))
          (mt_molecules mol_type))
       (od_values (molecule_types s))"

text \<open>
  The loop over the molecules of a type ends with \<open>break\<close> after its first round, so it
  runs over at most the first molecule.
\<close>

definition tag_pair :: "'t \<Rightarrow> 'a \<times> 'a \<Rightarrow> ('a \<times> 't) \<times> ('a \<times> 't)" where
  "tag_pair mol_type p = ((fst p, mol_type), (snd p, mol_type))"

definition connected_pairs_per_moleculetype ::
  "'a system \<Rightarrow> (('a \<times> 'a moleculetype) \<times> ('a \<times> 'a moleculetype)) generated" where
  "connected_pairs_per_moleculetype s =
     gen_for (\<lambda>mol_type.
        gen_for (\<lambda>molecule.
           gen_for (\<lambda>bond.
              case bond_atoms (mol_atoms molecule) bond of
                (ps, r) \<Rightarrow> (map (tag_pair mol_type) ps, r))
             (mt_bonds mol_type))
          (take 1 (mt_molecules mol_type)))
       (od_values (molecule_types s))"

subsection \<open>The bond graph\<close>

text \<open>
  \<open>networkx.Graph\<close> is an undirected graph without parallel edges: its nodes in the
  order they were added, and its edges, one entry for each pair of joined nodes
  whichever way round the pair was given. Adding an edge adds its two nodes when they
  are new and leaves the edges as they are when the two nodes are joined already.
  \<open>add_edges_from\<close> consumes the values yielded by a generator.
\<close>

record 'n graph =
  g_nodes :: "'n list"
  g_edges :: "('n \<times> 'n) list"

definition nx_Graph :: "'n graph" where
  "nx_Graph = \<lparr>g_nodes = [], g_edges = []\<rparr>"

definition has_edge :: "'n graph \<Rightarrow> 'n \<Rightarrow> 'n \<Rightarrow> bool" where
  "has_edge g u v = ((u, v) \<in> set (g_edges g) \<or> (v, u) \<in> set (g_edges g))"

definition add_node :: "'n \<Rightarrow> 'n list \<Rightarrow> 'n list" where
  "add_node n ns = (if n \<in> set ns then ns else ns @ [n])"

definition add_edge :: "'n graph \<Rightarrow> 'n \<times> 'n \<Rightarrow> 'n graph" where
  "add_edge g e =
     \<lparr>g_nodes = add_node (snd e) (add_node (fst e) (g_nodes g)),
      g_edges = (if has_edge g (fst e) (snd e) then g_edges g else g_edges g @ [e])\<rparr>"

definition add_edges_from :: "('n \<times> 'n) list \<Rightarrow> 'n graph \<Rightarrow> 'n graph" where
  "add_edges_from ebunch g = foldl add_edge g ebunch"

definition number_of_edges :: "'n graph \<Rightarrow> nat" where
  "number_of_edges g = length (g_edges g)"

text \<open>
  The property \<open>bondgraph\<close>. The store holds the graph objects created so far and a
  reference is a position in it, so a new graph gets the reference \<open>length store\<close>.
  The new graph is assigned to \<open>_bondgraph\<close> before the pairs are consumed: when the
  generator raises, the exception leaves the property with the graph cached as far as
  it was filled.
\<close>

definition bondgraph ::
  "'a system \<Rightarrow> 'a graph list \<Rightarrow> (py_error + nat) \<times> 'a system \<times> 'a graph list" where
  "bondgraph s store =
     (case p_bondgraph s of
        Some r \<Rightarrow> (Inr r, s, store)
      | None \<Rightarrow>
          (let r = length store;
               s1 = s\<lparr>p_bondgraph := Some r\<rparr>;
               g = add_edges_from (fst (connected_pairs s1)) nx_Graph
           in (case snd (connected_pairs s1) of
                 None \<Rightarrow> (Inr r, s1, store @ [g])
               | Some e \<Rightarrow> (Inl e, s1, store @ [g]))))"

text \<open>The two atoms an edge joins, whichever way round.\<close>

definition endpoints :: "'n \<times> 'n \<Rightarrow> 'n set" where
  "endpoints e = {fst e, snd e}"

text \<open>
  The registry of a system built with \<open>add_molecule_type\<close> and \<open>add_molecule\<close> has
  distinct keys, each the name of the molecule type stored under it.
\<close>

definition registry_ok :: "(string \<times> 'a moleculetype) list \<Rightarrow> bool" where
  "registry_ok reg = (distinct (map fst reg) \<and> list_all (\<lambda>p. mt_name (snd p) = fst p) reg)"


section \<open>Interaction types: the cosine-squared angle\<close>

text \<open>
  Modelled from the spec: the decorator \<open>accepts_compatible_units\<close> of
  \<open>intermol.decorators\<close> and the class \<open>AbstractAngleType\<close> are not among the source
  files. The decorator is given the unit each parameter is declared with and checks,
  before the constructor body runs, that every supplied parameter has the dimension of
  its declared unit; construction fails with \<open>UnitMismatch\<close> otherwise. The base class
  keeps the three bonding-type labels and the flag \<open>c\<close>.
\<close>

definition accepts_compatible_units :: "(quantity \<times> py_unit) list \<Rightarrow> py_error option" where
  "accepts_compatible_units declared =
     (if list_all (\<lambda>p. is_compatible (q_unit (fst p)) (snd p)) declared then None
      else Some UnitMismatch)"

record abstract_angle_type =
  bondingtype1 :: string
  bondingtype2 :: string
  bondingtype3 :: string
  at_c :: bool

definition AbstractAngleType_init ::
  "string \<Rightarrow> string \<Rightarrow> string \<Rightarrow> bool \<Rightarrow> abstract_angle_type" where
  "AbstractAngleType_init bt1 bt2 bt3 flag =
     \<lparr>bondingtype1 = bt1, bondingtype2 = bt2, bondingtype3 = bt3, at_c = flag\<rparr>"

text \<open>
  \<open>CosineSquaredAngleType\<close> adds the slots \<open>theta\<close> and \<open>k\<close> (the fields \<open>at_theta\<close>
  and \<open>at_k\<close>) to its base class. Its constructor is declared with \<open>theta\<close> in degrees
  and \<open>k\<close> in kilojoules per mole; the bonding types and \<open>c\<close> are declared without a
  unit. The body calls the constructor of the base class and assigns the two
  parameters as they were given.
\<close>

record cosine_squared_angle_type = abstract_angle_type +
  at_theta :: quantity
  at_k :: quantity

definition default_theta :: quantity where
  "default_theta = \<lparr>q_value = 0, q_unit = degrees\<rparr>"

definition default_k :: quantity where
  "default_k = \<lparr>q_value = 0, q_unit = kilojoules_per_mole\<rparr>"

definition CosineSquaredAngleType_init ::
  "string \<Rightarrow> string \<Rightarrow> string \<Rightarrow> quantity \<Rightarrow> quantity \<Rightarrow> bool
     \<Rightarrow> py_error + cosine_squared_angle_type" where
  "CosineSquaredAngleType_init bt1 bt2 bt3 th kk flag =
     (case accepts_compatible_units [(th, degrees), (kk, kilojoules_per_mole)] of
        Some e \<Rightarrow> Inl e
      | None \<Rightarrow>
          Inr (abstract_angle_type.extend (AbstractAngleType_init bt1 bt2 bt3 flag)
                 (cosine_squared_angle_type.fields th kk)))"

section \<open>The GROMACS driver\<close>

subsection \<open>Grouping the energy terms\<close>










subsection \<open>Finding the binaries\<close>

text \<open>
  \<open>os.path.join\<close> of two components, and \<open>list\<close> applied to a string, which gives the
  list of its characters, each a string of length one. With \<open>gro_path\<close> left at its
  default \<open>None\<close> the join raises.
\<close>

definition os_path_join :: "string \<Rightarrow> string \<Rightarrow> string" where
  "os_path_join a b =
     (if b \<noteq> [] \<and> hd b = CHR ''/'' then b
      else if a = [] \<or> last a = CHR ''/'' then a @ b
      else a @ ''/'' @ b)"

definition py_list :: "string \<Rightarrow> string list" where
  "py_list str = map (\<lambda>ch. [ch]) str"

record binaries =
  grompp_bin :: "string list"
  mdrun_bin :: "string list"
  genergy_bin :: "string list"

definition binaries_for :: "string \<Rightarrow> string \<Rightarrow> binaries" where
  "binaries_for gro_path s =
     \<lparr>grompp_bin = py_list (os_path_join gro_path (''grompp'' @ s)),
      mdrun_bin = py_list (os_path_join gro_path (''mdrun'' @ s)),
      genergy_bin = py_list (os_path_join gro_path (''g_energy'' @ s))\<rparr>"

text \<open>
  \<open>which\<close> comes from \<open>intermol.tests.testing_tools\<close>, which is not among the source
  files; it is a parameter here, from the argument it is called with to the path it
  returns, or \<open>None\<close>. The test \<open>which(a) and which(b) and which(c)\<close> calls it from left to
  right up to the first result that is \<open>None\<close> or empty.
\<close>

definition truthy :: "string option \<Rightarrow> bool" where
  "truthy r = (case r of None \<Rightarrow> False | Some path \<Rightarrow> path \<noteq> [])"

definition all_found :: "(string list \<Rightarrow> string option) \<Rightarrow> binaries \<Rightarrow> bool" where
  "all_found which b =
     (if truthy (which (grompp_bin b))
      then (if truthy (which (mdrun_bin b)) then truthy (which (genergy_bin b)) else False)
      else False)"

text \<open>
  The loop over the suffixes of \<open>gromacs_energies\<close>, with the variables it assigns:
  \<open>found_binaries\<close> and the three command lists, which are unbound before the first
  round. A round with suffix \<open>_d\<close> whose binaries are all found leaves the loop.
\<close>

fun find_binaries ::
  "(string list \<Rightarrow> string option) \<Rightarrow> string \<Rightarrow> string list \<Rightarrow> bool \<times> binaries option
     \<Rightarrow> bool \<times> binaries option" where
  "find_binaries which gro_path [] st = st"
| "find_binaries which gro_path (s # suff) st =
     (if all_found which (binaries_for gro_path s)
      then (if s = ''_d'' then (True, Some (binaries_for gro_path s))
            else if s = [] then find_binaries which gro_path suff (True, Some (binaries_for gro_path s))
            else find_binaries which gro_path suff (fst st, Some (binaries_for gro_path s)))
      else find_binaries which gro_path suff (fst st, Some (binaries_for gro_path s)))"

definition select_binaries ::
  "(string list \<Rightarrow> string option) \<Rightarrow> string option \<Rightarrow> py_error + binaries" where
  "select_binaries which gro_path =
     (case gro_path of
        None \<Rightarrow> Inl (AttributeError ''endswith'')
      | Some p \<Rightarrow>
          (case find_binaries which p [''_d'', ''''] (False, None) of
             (True, Some b) \<Rightarrow> Inr b
           | _ \<Rightarrow> Inl (IOError ''Unable to find GROMACS executables.'')))"


section \<open>Observations and example data\<close>

text \<open>The unit tag of a box vector: \<open>None\<close> for a value that is not a quantity.\<close>

definition unit_of :: "box_value \<Rightarrow> py_unit option" where
  "unit_of v = (case v of Quantity a u \<Rightarrow> Some u | Array a \<Rightarrow> None | Other \<Rightarrow> None)"

text \<open>
  A molecule type of three atoms with two bond templates, and its \<open>i\<close>-th molecule,
  whose atoms are the objects \<open>3i\<close>, \<open>3i + 1\<close> and \<open>3i + 2\<close>.
\<close>

definition water :: "nat moleculetype" where
  "water = \<lparr>mt_name = ''SOL'', mt_molecules = [],
            mt_bonds = [\<lparr>atom1 = 1, atom2 = 2\<rparr>, \<lparr>atom1 = 1, atom2 = 3\<rparr>]\<rparr>"

definition water_molecule :: "nat \<Rightarrow> nat molecule" where
  "water_molecule i = \<lparr>mol_name = ''SOL'', mol_atoms = [3 * i, 3 * i + 1, 3 * i + 2]\<rparr>"

definition new_system :: "nat system" where
  "new_system = System_init None"

definition one_water :: "nat system" where
  "one_water = snd (add_molecule (water_molecule 0) (add_molecule_type water new_system))"

text \<open>
  A molecule type of two atoms whose topology lists the bond between them twice, once
  from each end, with one molecule; and the type \<open>water\<close> registered without any
  molecule.
\<close>

definition twice_bonded :: "nat moleculetype" where
  "twice_bonded = \<lparr>mt_name = ''DUP'', mt_molecules = [],
                   mt_bonds = [\<lparr>atom1 = 1, atom2 = 2\<rparr>, \<lparr>atom1 = 2, atom2 = 1\<rparr>]\<rparr>"

definition twice_bonded_system :: "nat system" where
  "twice_bonded_system =
     snd (add_molecule \<lparr>mol_name = ''DUP'', mol_atoms = [0, 1]\<rparr>
            (add_molecule_type twice_bonded new_system))"

definition no_water :: "nat system" where
  "no_water = add_molecule_type water new_system"

text \<open>The type \<open>water\<close> with two molecules, and the system that holds it.\<close>

definition two_waters :: "nat system" where
  "two_waters = snd (add_molecule (water_molecule 1) one_water)"

definition water_twice :: "nat moleculetype" where
  "water_twice = water\<lparr>mt_molecules := [water_molecule 0, water_molecule 1]\<rparr>"


section \<open>The box vector\<close>

text \<open>
  For a value that has a shape the setter never raises: it stores \<open>np.array(v)\<close>
  whatever the shape is, and a shape other than (3, 3) only adds an entry to the log.
\<close>

lemma box_vector_setter_with_shape:
  "shape_of v = Inr sh \<Longrightarrow>
     box_vector_setter np_array v s logger =
       (None, s\<lparr>p_box_vector := Array (np_array v)\<rparr>,
        if sh \<noteq> [3, 3] then logger @ [ValueError ''Box vector with incorrect format'']
        else logger)"
  by (simp add: box_vector_setter_def)

text \<open>
  Claim C1, at a 2\<times>2 array assigned to the box vector of a new system: the setter
  raises nothing. It logs a \<open>ValueError\<close> and goes on to store the array, so the
  box vector the system had before is replaced by the malformed one.
\<close>

theorem box_vector_setter_stores_malformed:
  "box_vector_setter np_array_values (Array (NdArray [2, 2] [1, 0, 0, 1])) new_system []
     = (None,
        new_system\<lparr>p_box_vector := Array (NdArray [2, 2] [1, 0, 0, 1])\<rparr>,
        [ValueError ''Box vector with incorrect format''])"
  by (simp add: box_vector_setter_def)

text \<open>
  Claim C10: assigning a unit-tagged 3\<times>3 matrix \<open>v\<close> raises nothing and logs nothing,
  and the box vector read back afterwards is the plain array \<open>np.array(v)\<close>, which has no
  unit tag; the box vector of a newly constructed system is tagged with nanometers.
\<close>

theorem box_vector_setter_strips_unit:
  "shape a = [3, 3] \<Longrightarrow>
     (case box_vector_setter np_array (Quantity a u) s logger of
        (e, s', logger') \<Rightarrow>
          e = None \<and> logger' = logger \<and>
          box_vector s' = Array (np_array (Quantity a u)) \<and>
          unit_of (box_vector s') = None)
     \<and> unit_of (box_vector (System_init nm)) = Some nanometers"
  by (simp add: box_vector_setter_def box_vector_def unit_of_def System_init_def)

theorem box_vector_setter_strips_unit_witness:
  "shape (np_zeros [3, 3]) = [3, 3] \<and>
   (case box_vector_setter np_array_values (Quantity (np_zeros [3, 3]) angstroms) new_system [] of
      (e, s', logger') \<Rightarrow>
        e = None \<and> logger' = [] \<and> box_vector s' = Array (np_zeros [3, 3]) \<and>
        unit_of (box_vector s') = None)"
  using box_vector_setter_strips_unit [where a = "np_zeros [3, 3]" and np_array = np_array_values
      and u = angstroms and s = new_system and logger = "[]" and nm = None]
  by (simp add: np_zeros_def box_vector_setter_def box_vector_def unit_of_def)

section \<open>The registry of molecule types\<close>

text \<open>
  Claim C2 fails as stated: adding a molecule of the unregistered type \<open>SOL\<close> to a new
  system raises \<open>KeyError\<close>, the error of the dictionary lookup itself, and not
  \<open>UnknownMoleculeType\<close>. The system is left as it was.
\<close>

theorem add_molecule_raises_KeyError:
  "add_molecule (water_molecule 0) new_system = (Some (KeyError ''SOL''), new_system) \<and>
   fst (add_molecule (water_molecule 0) new_system) \<noteq> Some (UnknownMoleculeType ''SOL'')"
  by (simp add: add_molecule_def od_getitem_def new_system_def System_init_def water_molecule_def)

text \<open>
  Claim C2, amended: when the name of a molecule is not a key of the registry of
  molecule types, \<open>add_molecule\<close> raises \<open>KeyError\<close> carrying that name, and the
  system, its registry included, is unchanged.
\<close>

theorem add_molecule_unregistered:
  "\<not> od_contains (p_molecule_types s) (mol_name m) \<Longrightarrow>
     add_molecule m s = (Some (KeyError (mol_name m)), s)"
  by (simp add: add_molecule_def od_getitem_def od_contains_def)

theorem add_molecule_unregistered_witness:
  "\<not> od_contains (p_molecule_types new_system) (mol_name (water_molecule 0)) \<and>
   add_molecule (water_molecule 0) new_system = (Some (KeyError ''SOL''), new_system)"
  using add_molecule_unregistered [where s = new_system and m = "water_molecule 0"]
  by (simp add: od_contains_def new_system_def System_init_def water_molecule_def)

section \<open>The atom count\<close>

lemma atoms_one_water: "atoms one_water = [0, 1, 2]"
  by (simp add: one_water_def add_molecule_def add_molecule_type_def od_getitem_def
      od_setitem_def new_system_def System_init_def water_molecule_def water_def atoms_def
      molecule_types_def od_values_def mt_add_molecule_def)

text \<open>
  Claim C8 fails as stated: after \<open>n_atoms\<close> of a system with three atoms is set
  to \<open>0\<close>, reading it traverses the atoms again and returns \<open>3\<close>.
\<close>

theorem n_atoms_zero_is_recounted:
  "fst (n_atoms (n_atoms_setter (Some 0) one_water)) = Some 3 \<and>
   fst (n_atoms (n_atoms_setter (Some 0) one_water)) \<noteq> Some 0"
  by (simp add: n_atoms_def n_atoms_setter_def falsy_def atoms_def molecule_types_def
      atoms_one_water [unfolded atoms_def molecule_types_def])

text \<open>
  Claim C8, amended. While \<open>_n_atoms\<close> is \<open>None\<close>, reading \<open>n_atoms\<close> counts the atoms
  by traversal and stores the count; when the system has an atom, a second read returns
  the stored count and leaves the system as it is. After \<open>n_atoms\<close> is set to an integer
  \<open>n\<close> other than \<open>0\<close>, a read returns \<open>n\<close> and changes nothing, whatever molecule types
  the system holds.
\<close>

theorem n_atoms_lazy_and_override:
  "(p_n_atoms s = None \<longrightarrow>
      n_atoms s = (Some (int (length (atoms s))), s\<lparr>p_n_atoms := Some (int (length (atoms s)))\<rparr>)) \<and>
   (p_n_atoms s = None \<and> atoms s \<noteq> [] \<longrightarrow>
      n_atoms (snd (n_atoms s)) = (Some (int (length (atoms s))), snd (n_atoms s))) \<and>
   (n \<noteq> 0 \<longrightarrow>
      n_atoms (n_atoms_setter (Some n) s) = (Some n, n_atoms_setter (Some n) s) \<and>
      (\<forall>registry.
         fst (n_atoms ((n_atoms_setter (Some n) s)\<lparr>p_molecule_types := registry\<rparr>)) = Some n))"
  by (simp add: n_atoms_def n_atoms_setter_def falsy_def)

lemma p_n_atoms_one_water: "p_n_atoms one_water = None"
  by (simp add: one_water_def add_molecule_def add_molecule_type_def od_getitem_def
      od_setitem_def new_system_def System_init_def water_molecule_def water_def)

theorem n_atoms_lazy_and_override_witness:
  "p_n_atoms one_water = None \<and> atoms one_water \<noteq> [] \<and>
   n_atoms one_water = (Some 3, one_water\<lparr>p_n_atoms := Some 3\<rparr>) \<and>
   n_atoms (snd (n_atoms one_water)) = (Some 3, snd (n_atoms one_water)) \<and>
   n_atoms (n_atoms_setter (Some 7) one_water) = (Some 7, n_atoms_setter (Some 7) one_water)"
  using n_atoms_lazy_and_override [where s = one_water and n = 7]
  by (simp add: p_n_atoms_one_water atoms_one_water n_atoms_def falsy_def)


section \<open>Generators and graphs\<close>

lemma gen_for_done:
  "snd (gen_for body xs) = None \<Longrightarrow>
     fst (gen_for body xs) = concat (map (\<lambda>x. fst (body x)) xs) \<and>
     list_all (\<lambda>x. snd (body x) = None) xs"
  by (induction xs) (auto split: prod.splits option.splits)

lemma gen_for_yields:
  "p \<in> set (fst (gen_for body xs)) \<Longrightarrow> \<exists>x \<in> set xs. p \<in> set (fst (body x))"
  by (induction xs) (auto split: prod.splits option.splits)

lemma has_edge_endpoints:
  "has_edge g u v \<longleftrightarrow> {u, v} \<in> endpoints ` set (g_edges g)"
  by (force simp: has_edge_def endpoints_def doubleton_eq_iff image_iff)

lemma add_edge_endpoints:
  "endpoints ` set (g_edges (add_edge g e)) = insert (endpoints e) (endpoints ` set (g_edges g))"
proof (cases "has_edge g (fst e) (snd e)")
  case True
  then have "endpoints e \<in> endpoints ` set (g_edges g)"
    by (simp add: has_edge_endpoints endpoints_def)
  with True show ?thesis by (auto simp: add_edge_def)
next
  case False
  then show ?thesis by (simp add: add_edge_def)
qed

lemma add_edge_distinct:
  assumes "distinct (map endpoints (g_edges g))"
  shows "distinct (map endpoints (g_edges (add_edge g e)))"
proof (cases "has_edge g (fst e) (snd e)")
  case True
  with assms show ?thesis by (simp add: add_edge_def)
next
  case False
  then have "endpoints e \<notin> endpoints ` set (g_edges g)"
    by (simp add: has_edge_endpoints endpoints_def)
  with False assms show ?thesis by (simp add: add_edge_def)
qed

lemma add_edges_from_edges:
  "distinct (map endpoints (g_edges g)) \<Longrightarrow>
     distinct (map endpoints (g_edges (add_edges_from ps g))) \<and>
     endpoints ` set (g_edges (add_edges_from ps g)) =
       endpoints ` set ps \<union> endpoints ` set (g_edges g)"
  unfolding add_edges_from_def
proof (induction ps arbitrary: g)
  case Nil
  then show ?case by simp
next
  case (Cons p ps)
  from Cons.IH [OF add_edge_distinct [OF Cons.prems, of p]]
  show ?case by (auto simp: add_edge_endpoints)
qed

lemma number_of_edges_add_edges_from:
  "number_of_edges (add_edges_from ps nx_Graph) = card (endpoints ` set ps)"
proof -
  have d: "distinct (map endpoints (g_edges (nx_Graph :: 'a graph)))"
    by (simp add: nx_Graph_def)
  from add_edges_from_edges [OF d, of ps]
  have 1: "distinct (map endpoints (g_edges (add_edges_from ps nx_Graph)))"
    and 2: "endpoints ` set (g_edges (add_edges_from ps nx_Graph)) = endpoints ` set ps"
    by (simp_all add: nx_Graph_def)
  have "card (endpoints ` set ps) =
      card (set (map endpoints (g_edges (add_edges_from ps nx_Graph))))"
    using 2 by simp
  also have "\<dots> = length (map endpoints (g_edges (add_edges_from ps nx_Graph)))"
    using 1 by (rule distinct_card)
  finally show ?thesis by (simp add: number_of_edges_def)
qed

lemma card_endpoints_length_iff:
  "card (endpoints ` set ps) = length ps \<longleftrightarrow> distinct (map endpoints ps)"
  using card_distinct [of "map endpoints ps"] distinct_card [of "map endpoints ps"] by auto

section \<open>The bond graph\<close>

lemma connected_pairs_twice_bonded:
  "connected_pairs twice_bonded_system = ([(0, 1), (1, 0)], None)"
  by (simp add: twice_bonded_system_def twice_bonded_def add_molecule_def add_molecule_type_def
      od_getitem_def od_setitem_def new_system_def System_init_def mt_add_molecule_def
      connected_pairs_def molecule_types_def od_values_def bond_atoms_def py_getitem_def)

lemma p_bondgraph_twice_bonded: "p_bondgraph twice_bonded_system = None"
  by (simp add: twice_bonded_system_def twice_bonded_def add_molecule_def add_molecule_type_def
      od_getitem_def od_setitem_def new_system_def System_init_def)

lemma connected_pairs_cache [simp]:
  "connected_pairs (s\<lparr>p_bondgraph := r\<rparr>) = connected_pairs s"
  by (simp add: connected_pairs_def molecule_types_def)

text \<open>
  Whenever a read of \<open>bondgraph\<close> returns a graph, the next read returns the same
  reference and changes neither the system nor the store. When \<open>connected_pairs\<close>
  raises during the first read, the exception is passed on and the graph filled so far
  stays cached.
\<close>

lemma bondgraph_cached:
  "bondgraph s store = (Inr r, s1, store1) \<Longrightarrow> bondgraph s1 store1 = (Inr r, s1, store1)"
  by (auto simp: bondgraph_def Let_def split: option.splits)

lemma bondgraph_after_exception:
  "p_bondgraph s = None \<Longrightarrow> snd (connected_pairs s) = Some e \<Longrightarrow>
     fst (bondgraph s store) = Inl e \<and>
     p_bondgraph (fst (snd (bondgraph s store))) = Some (length store)"
  by (simp add: bondgraph_def Let_def)

text \<open>
  Claim C3 fails as stated: for the molecule type whose topology lists its one bond
  twice, \<open>connected_pairs\<close> produces two pairs and the graph returned by \<open>bondgraph\<close>
  has a single edge.
\<close>

theorem bondgraph_merges_repeated_bond:
  "length (fst (connected_pairs twice_bonded_system)) = 2 \<and>
   fst (bondgraph twice_bonded_system []) = Inr 0 \<and>
   number_of_edges (snd (snd (bondgraph twice_bonded_system [])) ! 0) = 1"
  by (simp add: bondgraph_def p_bondgraph_twice_bonded connected_pairs_twice_bonded
      add_edges_from_def add_edge_def add_node_def has_edge_def nx_Graph_def number_of_edges_def)

text \<open>
  Claim C3, amended. For a system whose bond graph is not cached yet and whose
  \<open>connected_pairs\<close> runs to its end without an exception, the first read of
  \<open>bondgraph\<close> creates one graph object and returns a reference to it; a second read
  returns the same reference and leaves the system and the store of objects as they
  are. The number of edges of that graph is the number of distinct unordered atom pairs
  among the pairs \<open>connected_pairs\<close> produces; it equals the number of pairs produced
  exactly when no two of them join the same two atoms.
\<close>

theorem bondgraph_memoized_edge_count:
  assumes "p_bondgraph s = None" and "snd (connected_pairs s) = None"
  shows "\<exists>s1 store1.
           bondgraph s store = (Inr (length store), s1, store1) \<and>
           bondgraph s1 store1 = (Inr (length store), s1, store1) \<and>
           number_of_edges (store1 ! length store) =
             card (endpoints ` set (fst (connected_pairs s))) \<and>
           (number_of_edges (store1 ! length store) = length (fst (connected_pairs s))
              \<longleftrightarrow> distinct (map endpoints (fst (connected_pairs s))))"
proof -
  let ?s1 = "s\<lparr>p_bondgraph := Some (length store)\<rparr>"
  let ?g = "add_edges_from (fst (connected_pairs s)) nx_Graph"
  let ?store1 = "store @ [?g]"
  have first: "bondgraph s store = (Inr (length store), ?s1, ?store1)"
    using assms by (simp add: bondgraph_def Let_def)
  have second: "bondgraph ?s1 ?store1 = (Inr (length store), ?s1, ?store1)"
    by (simp add: bondgraph_def)
  have edges: "number_of_edges (?store1 ! length store) =
      card (endpoints ` set (fst (connected_pairs s)))"
    by (simp add: number_of_edges_add_edges_from)
  from first second edges show ?thesis
    by (simp add: card_endpoints_length_iff)
qed

lemma connected_pairs_one_water:
  "connected_pairs one_water = ([(0, 1), (0, 2)], None)"
  by (simp add: one_water_def water_def water_molecule_def add_molecule_def add_molecule_type_def
      od_getitem_def od_setitem_def new_system_def System_init_def mt_add_molecule_def
      connected_pairs_def molecule_types_def od_values_def bond_atoms_def py_getitem_def)

lemma p_bondgraph_one_water: "p_bondgraph one_water = None"
  by (simp add: one_water_def add_molecule_def add_molecule_type_def od_getitem_def
      od_setitem_def new_system_def System_init_def water_molecule_def water_def)

theorem bondgraph_memoized_edge_count_witness:
  "p_bondgraph one_water = None \<and> snd (connected_pairs one_water) = None \<and>
   (\<exists>s1 store1.
      bondgraph one_water [] = (Inr 0, s1, store1) \<and>
      bondgraph s1 store1 = (Inr 0, s1, store1) \<and>
      number_of_edges (store1 ! 0) = 2)"
proof -
  have c: "card (endpoints ` {(0::nat, 1::nat), (0, 2)}) = 2"
    by (simp add: endpoints_def doubleton_eq_iff)
  from bondgraph_memoized_edge_count [where s = one_water and store = "[]"] c
  show ?thesis
    by (auto simp add: p_bondgraph_one_water connected_pairs_one_water)
qed


section \<open>The registry invariant\<close>

lemma list_all_update:
  "list_all P reg \<Longrightarrow> P (k, v) \<Longrightarrow> list_all P (AList.update k v reg)"
  by (induction reg) auto

lemma registry_ok_update:
  "registry_ok reg \<Longrightarrow> mt_name mt = k \<Longrightarrow> registry_ok (od_setitem k mt reg)"
  unfolding registry_ok_def od_setitem_def
  by (simp add: AList.distinct_update list_all_update)

lemma registry_ok_lookup:
  "registry_ok reg \<Longrightarrow> map_of reg k = Some mt \<Longrightarrow> mt_name mt = k"
  by (induction reg) (auto simp: registry_ok_def split: if_splits)

lemma registry_ok_init: "registry_ok (molecule_types (System_init nm))"
  by (simp add: registry_ok_def System_init_def molecule_types_def)

lemma registry_ok_add_molecule_type:
  "registry_ok (molecule_types s) \<Longrightarrow> registry_ok (molecule_types (add_molecule_type mt s))"
  by (simp add: add_molecule_type_def registry_ok_update molecule_types_def)

lemma registry_ok_add_molecule:
  "registry_ok (molecule_types s) \<Longrightarrow> registry_ok (molecule_types (snd (add_molecule m s)))"
  by (auto simp: add_molecule_def od_getitem_def mt_add_molecule_def molecule_types_def
      intro!: registry_ok_update dest: registry_ok_lookup split: option.splits)

lemma registry_ok_values:
  assumes "registry_ok reg"
  shows "distinct (od_values reg)"
proof -
  have "map fst reg = map mt_name (od_values reg)"
    using assms by (induction reg) (auto simp: registry_ok_def od_values_def)
  with assms have "distinct (map mt_name (od_values reg))"
    by (simp add: registry_ok_def)
  then show ?thesis by (simp add: distinct_map)
qed

section \<open>Connected pairs per molecule type\<close>

lemma bond_atoms_done:
  "snd (bond_atoms ats b) = None \<Longrightarrow> length (fst (bond_atoms ats b)) = 1"
  by (auto simp: bond_atoms_def split: sum.splits)

lemma length_concat_singletons:
  "list_all (\<lambda>x. length (f x) = 1) xs \<Longrightarrow> length (concat (map f xs)) = length xs"
  by (induction xs) auto

lemma filter_concat_none:
  "list_all (\<lambda>x. filter P (f x) = []) xs \<Longrightarrow> filter P (concat (map f xs)) = []"
  by (induction xs) auto

lemma filter_concat_one:
  assumes "distinct xs" and "y \<in> set xs"
    and "\<And>x. x \<in> set xs \<Longrightarrow> filter P (f x) = (if x = y then f y else [])"
  shows "filter P (concat (map f xs)) = f y"
proof -
  from assms(2) obtain us vs where xs: "xs = us @ y # vs"
    by (auto simp: in_set_conv_decomp)
  with assms(1) have "y \<notin> set us" and "y \<notin> set vs"
    by auto
  with assms(3) xs have "list_all (\<lambda>x. filter P (f x) = []) us"
    and "list_all (\<lambda>x. filter P (f x) = []) vs"
    by (auto simp: list_all_iff)
  then have "filter P (concat (map f us)) = []" and "filter P (concat (map f vs)) = []"
    by (simp_all add: filter_concat_none)
  moreover from assms(3) [of y] xs have "filter P (f y) = f y"
    by simp
  ultimately show ?thesis
    using xs by simp
qed

text \<open>
  Claim C4 fails as stated: a molecule type that is registered and has no molecule
  yet contributes no pair at all, although it has two bond templates.
\<close>

theorem connected_pairs_per_moleculetype_no_molecule:
  "od_values (molecule_types no_water) = [water] \<and> mt_molecules water = [] \<and>
   length (mt_bonds water) = 2 \<and>
   connected_pairs_per_moleculetype no_water = ([], None)"
  by (simp add: no_water_def water_def add_molecule_type_def od_setitem_def new_system_def
      System_init_def connected_pairs_per_moleculetype_def molecule_types_def od_values_def)

text \<open>
  Every pair produced for a molecule type is tagged with that type; and a molecule type
  without a molecule is the tag of no pair produced, in any system.
\<close>

lemma pairs_of_type_tagged:
  assumes "p \<in> set (fst (gen_for (\<lambda>molecule.
      gen_for (\<lambda>bond. case bond_atoms (mol_atoms molecule) bond of
                          (ps, r) \<Rightarrow> (map (tag_pair t) ps, r)) (mt_bonds t))
      (ms :: 'a molecule list)))"
  shows "snd (fst p) = t"
proof -
  from gen_for_yields [OF assms] obtain m :: "'a molecule" where
    inner: "p \<in> set (fst (gen_for (\<lambda>bond.
      case bond_atoms (mol_atoms m) bond of (ps, r) \<Rightarrow> (map (tag_pair t) ps, r)) (mt_bonds t)))"
    by blast
  from gen_for_yields [OF inner] obtain b where
    "p \<in> set (fst (case bond_atoms (mol_atoms m) b of (ps, r) \<Rightarrow> (map (tag_pair t) ps, r)))"
    by blast
  then show ?thesis
    by (auto simp: tag_pair_def split: prod.splits)
qed

lemma pairs_of_type_without_molecule:
  assumes "mt_molecules mol_type = []"
  shows "filter (\<lambda>p. snd (fst p) = mol_type) (fst (connected_pairs_per_moleculetype s)) = []"
proof -
  have "snd (fst p) \<noteq> mol_type" if "p \<in> set (fst (connected_pairs_per_moleculetype s))" for p
  proof
    assume tag: "snd (fst p) = mol_type"
    from gen_for_yields [OF that [unfolded connected_pairs_per_moleculetype_def]]
    obtain t where p: "p \<in> set (fst (gen_for (\<lambda>molecule.
        gen_for (\<lambda>bond. case bond_atoms (mol_atoms molecule) bond of
                            (ps, r) \<Rightarrow> (map (tag_pair t) ps, r)) (mt_bonds t))
        (take 1 (mt_molecules t))))"
      by blast
    then have "snd (fst p) = t"
      by (rule pairs_of_type_tagged)
    with tag p assms show False
      by simp
  qed
  then show ?thesis
    by (simp add: filter_empty_conv)
qed

text \<open>
  In a system whose registry has distinct keys, each the name of the type stored under
  it, and whose \<open>connected_pairs_per_moleculetype\<close> runs to its end without an
  exception, a registered molecule type with at least one molecule is the tag of
  exactly as many of the pairs produced as it has bond templates.
\<close>

lemma pairs_of_type_with_molecule:
  assumes ok: "registry_ok (molecule_types s)"
    and reg: "mol_type \<in> set (od_values (molecule_types s))"
    and mols: "mt_molecules mol_type \<noteq> []"
    and fin: "snd (connected_pairs_per_moleculetype s) = None"
  shows "length (filter (\<lambda>p. snd (fst p) = mol_type) (fst (connected_pairs_per_moleculetype s)))
           = length (mt_bonds mol_type)"
proof -
  define lookup :: "'a moleculetype \<Rightarrow> 'a molecule \<Rightarrow> bond
      \<Rightarrow> (('a \<times> 'a moleculetype) \<times> ('a \<times> 'a moleculetype)) generated"
    where "lookup t m b =
      (case bond_atoms (mol_atoms m) b of (ps, r) \<Rightarrow> (map (tag_pair t) ps, r))" for t m b
  define body where "body t =
      gen_for (\<lambda>m. gen_for (lookup t m) (mt_bonds t)) (take 1 (mt_molecules t))" for t
  let ?vs = "od_values (molecule_types s)"
  have cp: "connected_pairs_per_moleculetype s = gen_for body ?vs"
    unfolding connected_pairs_per_moleculetype_def body_def lookup_def ..
  from fin have all: "fst (gen_for body ?vs) = concat (map (\<lambda>t. fst (body t)) ?vs)"
    and ends: "list_all (\<lambda>t. snd (body t) = None) ?vs"
    using gen_for_done [of body ?vs] by (simp_all add: cp)
  have tags: "snd (fst p) = t" if "p \<in> set (fst (body t))" for p t
  proof -
    from that obtain m where "p \<in> set (fst (gen_for (lookup t m) (mt_bonds t)))"
      unfolding body_def by (blast dest: gen_for_yields)
    then obtain b where "p \<in> set (fst (lookup t m b))"
      by (blast dest: gen_for_yields)
    then show ?thesis
      by (auto simp: lookup_def tag_pair_def split: prod.splits)
  qed
  have sel: "filter (\<lambda>p. snd (fst p) = mol_type) (fst (body t)) =
      (if t = mol_type then fst (body mol_type) else [])" for t
    using tags [of _ t] by (auto simp: filter_empty_conv filter_id_conv)
  from mols obtain m ms where m: "mt_molecules mol_type = m # ms"
    by (cases "mt_molecules mol_type") auto
  from ends reg have end_t: "snd (body mol_type) = None"
    by (simp add: list_all_iff)
  have one: "body mol_type = gen_for (lookup mol_type m) (mt_bonds mol_type)"
    unfolding body_def m by (simp split: prod.splits option.splits)
  with end_t have inner: "snd (gen_for (lookup mol_type m) (mt_bonds mol_type)) = None"
    by simp
  from gen_for_done [OF inner]
  have yields: "fst (body mol_type) =
      concat (map (\<lambda>b. fst (lookup mol_type m b)) (mt_bonds mol_type))"
    and each: "list_all (\<lambda>b. snd (lookup mol_type m b) = None) (mt_bonds mol_type)"
    by (simp_all add: one)
  have lk: "snd (lookup t m' b) = snd (bond_atoms (mol_atoms m') b)"
    "length (fst (lookup t m' b)) = length (fst (bond_atoms (mol_atoms m') b))" for t m' b
    by (simp_all add: lookup_def split: prod.splits)
  from each have "list_all (\<lambda>b. length (fst (lookup mol_type m b)) = 1) (mt_bonds mol_type)"
    by (simp add: list_all_iff lk bond_atoms_done)
  then have len: "length (fst (body mol_type)) = length (mt_bonds mol_type)"
    unfolding yields by (rule length_concat_singletons)
  have "filter (\<lambda>p. snd (fst p) = mol_type) (concat (map (\<lambda>t. fst (body t)) ?vs))
      = fst (body mol_type)"
    by (rule filter_concat_one [OF registry_ok_values [OF ok] reg]) (rule sel)
  with len show ?thesis
    by (simp add: cp all)
qed

text \<open>
  Claim C4, amended. In a system whose registry has distinct keys, each the name of
  the type stored under it, and whose \<open>connected_pairs_per_moleculetype\<close> runs to its end
  without an exception, every registered molecule type with at least one molecule is
  the tag of exactly as many of the pairs produced as it has bond templates, however
  many molecules it has. A molecule type without a molecule is the tag of none of the
  pairs produced, in every system.
\<close>

theorem connected_pairs_per_moleculetype_count:
  "(registry_ok (molecule_types s) \<and> mol_type \<in> set (od_values (molecule_types s)) \<and>
    mt_molecules mol_type \<noteq> [] \<and> snd (connected_pairs_per_moleculetype s) = None \<longrightarrow>
      length (filter (\<lambda>p. snd (fst p) = mol_type) (fst (connected_pairs_per_moleculetype s)))
        = length (mt_bonds mol_type)) \<and>
   (mt_molecules mol_type = [] \<longrightarrow>
      filter (\<lambda>p. snd (fst p) = mol_type) (fst (connected_pairs_per_moleculetype s)) = [])"
  by (simp add: pairs_of_type_with_molecule pairs_of_type_without_molecule)

lemma molecule_types_two_waters: "molecule_types two_waters = [(''SOL'', water_twice)]"
  by (simp add: two_waters_def one_water_def water_twice_def water_def water_molecule_def
      add_molecule_def add_molecule_type_def od_getitem_def od_setitem_def new_system_def
      System_init_def mt_add_molecule_def molecule_types_def)

theorem connected_pairs_per_moleculetype_count_witness:
  "registry_ok (molecule_types two_waters) \<and>
   water_twice \<in> set (od_values (molecule_types two_waters)) \<and>
   length (mt_molecules water_twice) = 2 \<and>
   connected_pairs_per_moleculetype two_waters =
     ([((0, water_twice), (1, water_twice)), ((0, water_twice), (2, water_twice))], None) \<and>
   length (filter (\<lambda>p. snd (fst p) = water_twice)
             (fst (connected_pairs_per_moleculetype two_waters))) = length (mt_bonds water_twice) \<and>
   mt_molecules water = [] \<and>
   filter (\<lambda>p. snd (fst p) = water) (fst (connected_pairs_per_moleculetype no_water)) = [] \<and>
   filter (\<lambda>p. snd (fst p) = water) (fst (connected_pairs_per_moleculetype two_waters)) = []"
proof -
  have ok: "registry_ok (molecule_types two_waters)"
    by (simp add: molecule_types_two_waters registry_ok_def water_twice_def water_def)
  have reg: "water_twice \<in> set (od_values (molecule_types two_waters))"
    by (simp add: molecule_types_two_waters od_values_def)
  have mols: "mt_molecules water_twice \<noteq> []" "length (mt_molecules water_twice) = 2"
    by (simp_all add: water_twice_def)
  have run: "connected_pairs_per_moleculetype two_waters =
      ([((0, water_twice), (1, water_twice)), ((0, water_twice), (2, water_twice))], None)"
    by (simp add: connected_pairs_per_moleculetype_def molecule_types_two_waters od_values_def
        bond_atoms_def py_getitem_def tag_pair_def)
      (simp add: water_twice_def water_def water_molecule_def bond_atoms_def py_getitem_def
        tag_pair_def)
  then have fin: "snd (connected_pairs_per_moleculetype two_waters) = None"
    by simp
  have empty: "mt_molecules water = []"
    by (simp add: water_def)
  from connected_pairs_per_moleculetype_count [where s = two_waters and mol_type = water_twice]
    ok reg mols(1) fin
  have count: "length (filter (\<lambda>p. snd (fst p) = water_twice)
      (fst (connected_pairs_per_moleculetype two_waters))) = length (mt_bonds water_twice)"
    by blast
  from connected_pairs_per_moleculetype_count [where s = no_water and mol_type = water] empty
  have none1: "filter (\<lambda>p. snd (fst p) = water)
      (fst (connected_pairs_per_moleculetype no_water)) = []"
    by blast
  from connected_pairs_per_moleculetype_count [where s = two_waters and mol_type = water] empty
  have none2: "filter (\<lambda>p. snd (fst p) = water)
      (fst (connected_pairs_per_moleculetype two_waters)) = []"
    by blast
  from ok reg mols(2) run count empty none1 none2 show ?thesis
    by (intro conjI)
qed


section \<open>Grouping the energy terms\<close>














section \<open>Constructing a cosine-squared angle type\<close>

text \<open>
  Claim C6: when \<open>theta\<close> does not have the dimension of an angle or \<open>k\<close> does not
  have the dimension of an energy per mole, the construction fails with
  \<open>UnitMismatch\<close>; the result is the exception and no object.
\<close>

theorem CosineSquaredAngleType_init_mismatch:
  assumes "dimension_of (q_unit th) \<noteq> Angle \<or> dimension_of (q_unit kk) \<noteq> MolarEnergy"
  shows "CosineSquaredAngleType_init bt1 bt2 bt3 th kk flag = Inl UnitMismatch"
  using assms
  by (auto simp: CosineSquaredAngleType_init_def accepts_compatible_units_def is_compatible_def)

theorem CosineSquaredAngleType_init_mismatch_witness:
  "dimension_of (q_unit \<lparr>q_value = 1.5, q_unit = nanometers\<rparr>) \<noteq> Angle \<and>
   CosineSquaredAngleType_init ''CT'' ''CT'' ''HC'' \<lparr>q_value = 1.5, q_unit = nanometers\<rparr>
       default_k False = Inl UnitMismatch"
proof -
  have h: "dimension_of (q_unit \<lparr>q_value = 1.5, q_unit = nanometers\<rparr>) \<noteq> Angle"
    by simp
  then have "dimension_of (q_unit \<lparr>q_value = 1.5, q_unit = nanometers\<rparr>) \<noteq> Angle \<or>
      dimension_of (q_unit default_k) \<noteq> MolarEnergy"
    by (rule disjI1)
  from CosineSquaredAngleType_init_mismatch [OF this] h show ?thesis
    by simp
qed

text \<open>
  Claim C7: for three bonding-type labels, a \<open>theta\<close> in degrees and a \<open>k\<close> in
  kilojoules per mole (or in any other unit of an angle and of an energy per mole), the
  construction succeeds, and the object it returns holds the labels and reads back
  \<open>theta\<close> and \<open>k\<close> exactly as they were supplied.
\<close>

theorem CosineSquaredAngleType_init_roundtrip:
  assumes "dimension_of (q_unit th) = Angle" and "dimension_of (q_unit kk) = MolarEnergy"
  shows "\<exists>obj. CosineSquaredAngleType_init bt1 bt2 bt3 th kk flag = Inr obj \<and>
               at_theta obj = th \<and> at_k obj = kk \<and>
               bondingtype1 obj = bt1 \<and> bondingtype2 obj = bt2 \<and> bondingtype3 obj = bt3 \<and>
               at_c obj = flag"
  using assms
  by (simp add: CosineSquaredAngleType_init_def accepts_compatible_units_def is_compatible_def
      AbstractAngleType_init_def abstract_angle_type.extend_def
      cosine_squared_angle_type.fields_def)

theorem CosineSquaredAngleType_init_roundtrip_witness:
  "q_unit \<lparr>q_value = 109.5, q_unit = degrees\<rparr> = degrees \<and>
   q_unit \<lparr>q_value = 292.88, q_unit = kilojoules_per_mole\<rparr> = kilojoules_per_mole \<and>
   (\<exists>obj. CosineSquaredAngleType_init ''HC'' ''CT'' ''HC'' \<lparr>q_value = 109.5, q_unit = degrees\<rparr>
             \<lparr>q_value = 292.88, q_unit = kilojoules_per_mole\<rparr> False = Inr obj \<and>
          at_theta obj = \<lparr>q_value = 109.5, q_unit = degrees\<rparr> \<and>
          at_k obj = \<lparr>q_value = 292.88, q_unit = kilojoules_per_mole\<rparr>)"
proof -
  have a: "dimension_of (q_unit \<lparr>q_value = 109.5, q_unit = degrees\<rparr>) = Angle"
    and e: "dimension_of (q_unit \<lparr>q_value = 292.88, q_unit = kilojoules_per_mole\<rparr>) = MolarEnergy"
    by simp_all
  from CosineSquaredAngleType_init_roundtrip [OF a e, of "''HC''" "''CT''" "''HC''" False]
  show ?thesis by auto
qed

section \<open>Finding the GROMACS binaries\<close>

text \<open>
  The loop prefers the suffix \<open>_d\<close>, falls back to the empty suffix and raises
  \<open>IOError\<close> when neither round finds its three commands.
\<close>

lemma select_binaries_precedence:
  "select_binaries which (Some gro_path) =
     (if all_found which (binaries_for gro_path ''_d'') then Inr (binaries_for gro_path ''_d'')
      else if all_found which (binaries_for gro_path []) then Inr (binaries_for gro_path [])
      else Inl (IOError ''Unable to find GROMACS executables.''))"
  by (simp add: select_binaries_def)

text \<open>
  Whatever \<open>which\<close> answers, the command selected for \<open>grompp\<close> is never the
  one-element list holding the path of a binary: it has one element for each character
  of that path.
\<close>

lemma length_os_path_join: "length b \<le> length (os_path_join a b)"
  by (simp add: os_path_join_def)

lemma grompp_bin_length:
  "length (grompp_bin (binaries_for gro_path s)) \<ge> 6"
  using length_os_path_join [of "''grompp'' @ s" gro_path]
  by (simp add: binaries_for_def py_list_def)

lemma select_binaries_never_a_path:
  "select_binaries which (Some gro_path) = Inr b \<Longrightarrow> grompp_bin b \<noteq> [path]"
proof
  assume sel: "select_binaries which (Some gro_path) = Inr b" and one: "grompp_bin b = [path]"
  from sel obtain s where "b = binaries_for gro_path s"
    by (auto simp: select_binaries_precedence split: if_splits)
  with grompp_bin_length [of gro_path s] one show False
    by simp
qed

text \<open>
  Claim C9, with the binaries under \<open>/opt/gmx\<close> and a \<open>which\<close> that finds whatever it
  is asked for: the suffix \<open>_d\<close> is chosen, but each of the three commands selected is
  the path of the binary taken apart into its characters, so the program the first
  command names is \<open>/\<close> and not \<open>/opt/gmx/grompp_d\<close>.
\<close>

theorem select_binaries_gives_characters:
  "select_binaries (\<lambda>program. Some ''found'') (Some ''/opt/gmx'') =
     Inr \<lparr>grompp_bin = [''/'', ''o'', ''p'', ''t'', ''/'', ''g'', ''m'', ''x'', ''/'',
                         ''g'', ''r'', ''o'', ''m'', ''p'', ''p'', ''_'', ''d''],
          mdrun_bin = [''/'', ''o'', ''p'', ''t'', ''/'', ''g'', ''m'', ''x'', ''/'',
                        ''m'', ''d'', ''r'', ''u'', ''n'', ''_'', ''d''],
          genergy_bin = [''/'', ''o'', ''p'', ''t'', ''/'', ''g'', ''m'', ''x'', ''/'',
                          ''g'', ''_'', ''e'', ''n'', ''e'', ''r'', ''g'', ''y'', ''_'', ''d'']\<rparr> \<and>
   select_binaries (\<lambda>program. Some ''found'') (Some ''/opt/gmx'') \<noteq>
     Inr \<lparr>grompp_bin = [''/opt/gmx/grompp_d''], mdrun_bin = [''/opt/gmx/mdrun_d''],
          genergy_bin = [''/opt/gmx/g_energy_d'']\<rparr>"
  by (simp add: select_binaries_def binaries_for_def all_found_def truthy_def os_path_join_def
      py_list_def)


end
